theory Spec2Isabelle
  imports Complex_Main "HOL-Library.AList" "HOL-Library.Sublist"
begin

section \<open>Exceptions and the network environment\<close>

text \<open>
  The cluster start-up script \<^verbatim>\<open>start_dfms_cluster.py\<close> is modelled function by function.
  A Python exception is a value of \<open>exc\<close>; a function that may raise returns \<open>exc + 'a\<close>
  with \<open>Inl\<close> for the raised exception; a function whose loop may run forever returns an
  \<open>option\<close> on top, \<open>None\<close> meaning that the call never returns. Calls to \<open>logger\<close> write a
  log file only and are left out.
\<close>

datatype exc =
    ValueError
  | AttributeError
  | TypeError
  | IndexError
  | SocketError int
  | SymbolNotFound string
  | OtherException string

text \<open>
  The interpreter that runs the script. The two differ, in what is modelled here, in the
  type of the output of \<^verbatim>\<open>subprocess.check_output\<close> (text on Python 2, bytes on Python 3)
  and in the exception of \<^verbatim>\<open>os.path.join\<close> on \<^verbatim>\<open>None\<close>.
\<close>

datatype python = Python2 | Python3

text \<open>
  What one pass through the socket calls of the \<^verbatim>\<open>try\<close> block of \<^verbatim>\<open>writeToRemotePort\<close>
  (\<^verbatim>\<open>socket()\<close>, \<^verbatim>\<open>settimeout\<close>, \<^verbatim>\<open>connect\<close>, \<^verbatim>\<open>send\<close> when there is data, \<^verbatim>\<open>close\<close>) does:
  it completes, raises \<^verbatim>\<open>socket.timeout\<close>, raises \<^verbatim>\<open>socket.error\<close> with an errno, or raises
  something that is not a socket error.
\<close>

datatype conn_outcome =
    Connected
  | TimedOut
  | SockErr int
  | Raised exc

text \<open>
  The world seen by one call of \<^verbatim>\<open>check_host\<close>: the successive readings of \<^verbatim>\<open>time.time()\<close>
  (seconds), the outcome of the k-th connection attempt to a host and port, and, for a
  session probe, the exception raised by the client calls (\<open>None\<close> when
  \<^verbatim>\<open>create_session\<close> and \<^verbatim>\<open>destroy_session\<close> both return).
\<close>

record net_env =
  clock :: "nat \<Rightarrow> rat"
  attempt :: "string \<Rightarrow> int \<Rightarrow> string option \<Rightarrow> nat \<Rightarrow> conn_outcome"
  session_probe :: "string \<Rightarrow> int \<Rightarrow> exc option"

text \<open>\<^verbatim>\<open>errno.ECONNREFUSED\<close>, with its Linux value.\<close>

definition ECONNREFUSED :: int where
  "ECONNREFUSED = 111"

section \<open>utils: writeToRemotePort and portIsOpen\<close>

text \<open>
  The \<^verbatim>\<open>while True\<close> loop of \<^verbatim>\<open>writeToRemotePort\<close>. \<open>c\<close> counts the clock readings taken so
  far and \<open>k\<close> the connection attempts made so far. A timeout of \<open>None\<close> is Python's
  \<^verbatim>\<open>None\<close> (wait for ever). With a timeout that is neither \<^verbatim>\<open>None\<close> nor 0 the clock is read
  at the top of each round; after a refused connection it is read again unless the timeout
  is \<^verbatim>\<open>None\<close>. Any socket error other than a refused connection is raised again, as is
  every exception that is not a socket error.
\<close>

partial_function (option) writeToRemotePort_loop ::
  "net_env \<Rightarrow> string \<Rightarrow> int \<Rightarrow> string option \<Rightarrow> rat option \<Rightarrow> rat \<Rightarrow> nat \<Rightarrow> nat
     \<Rightarrow> (exc + bool) option" where
  "writeToRemotePort_loop env host port data timeout start c k =
    (if timeout \<noteq> None \<and> timeout \<noteq> Some 0 \<and> the timeout - (clock env c - start) \<le> 0
     then Some (Inr False)
     else
       (let c1 = (if timeout \<noteq> None \<and> timeout \<noteq> Some 0 then Suc c else c) in
        case attempt env host port data k of
          Connected \<Rightarrow> Some (Inr True)
        | TimedOut \<Rightarrow> Some (Inr False)
        | SockErr e \<Rightarrow>
            if e = ECONNREFUSED then
              (if timeout \<noteq> None \<and> clock env c1 - start > the timeout
               then Some (Inr False)
               else writeToRemotePort_loop env host port data timeout start
                      (if timeout \<noteq> None then Suc c1 else c1) (Suc k))
            else Some (Inl (SocketError e))
        | Raised x \<Rightarrow> Some (Inl x)))"

declare writeToRemotePort_loop.simps [code]

definition writeToRemotePort ::
  "net_env \<Rightarrow> string \<Rightarrow> int \<Rightarrow> string option \<Rightarrow> rat option \<Rightarrow> (exc + bool) option" where
  "writeToRemotePort env host port data timeout =
     writeToRemotePort_loop env host port data timeout (clock env 0) 1 0"

definition portIsOpen :: "net_env \<Rightarrow> string \<Rightarrow> int \<Rightarrow> rat option \<Rightarrow> (exc + bool) option" where
  "portIsOpen env host port timeout = writeToRemotePort env host port None timeout"

section \<open>Host Health Prober: check_host and check_hosts\<close>

text \<open>
  \<^verbatim>\<open>check_host\<close>: without a session probe it is \<^verbatim>\<open>utils.portIsOpen\<close>; with one, the whole
  client conversation sits in a \<^verbatim>\<open>try\<close> with a bare \<^verbatim>\<open>except\<close> that returns \<^verbatim>\<open>False\<close>.
\<close>

definition check_host ::
  "net_env \<Rightarrow> string \<Rightarrow> int \<Rightarrow> rat option \<Rightarrow> bool \<Rightarrow> (exc + bool) option" where
  "check_host env host port timeout check_with_session =
     (if \<not> check_with_session then portIsOpen env host port timeout
      else (case session_probe env host port of
              None \<Rightarrow> Some (Inr True)
            | Some e \<Rightarrow> Some (Inr False)))"



text \<open>
  The \<^verbatim>\<open>while ntries\<close> loop of the inner function \<^verbatim>\<open>check_and_add\<close>. \<open>envs n\<close> is the world
  in which the n-th call of \<^verbatim>\<open>check_host\<close> of this worker runs. The source's update of the
  counter is \<^verbatim>\<open>ntries -= 0\<close>, written here as it stands. An exception of \<^verbatim>\<open>check_host\<close>
  leaves the loop; a call of \<^verbatim>\<open>check_host\<close> that never returns keeps the worker for ever.
\<close>

partial_function (option) check_and_add_loop ::
  "(nat \<Rightarrow> net_env) \<Rightarrow> string \<Rightarrow> int \<Rightarrow> rat option \<Rightarrow> bool \<Rightarrow> int \<Rightarrow> nat
     \<Rightarrow> (exc + string option) option" where
  "check_and_add_loop envs ip port timeout check_with_session ntries n =
    (if ntries \<noteq> 0 then
       (case check_host (envs n) ip port timeout check_with_session of
          None \<Rightarrow> None
        | Some (Inl e) \<Rightarrow> Some (Inl e)
        | Some (Inr up) \<Rightarrow>
            if up then Some (Inr (Some ip))
            else check_and_add_loop envs ip port timeout check_with_session (ntries - 0) (Suc n))
     else Some (Inr None))"

declare check_and_add_loop.simps [code]

definition check_and_add ::
  "(nat \<Rightarrow> net_env) \<Rightarrow> string \<Rightarrow> int \<Rightarrow> rat option \<Rightarrow> bool \<Rightarrow> int
     \<Rightarrow> (exc + string option) option" where
  "check_and_add envs ip port timeout check_with_session retry =
     check_and_add_loop envs ip port timeout check_with_session retry 0"

text \<open>
  \<^verbatim>\<open>tp.map(check_and_add, ips)\<close> followed by \<^verbatim>\<open>tp.close()\<close> and \<^verbatim>\<open>tp.join()\<close>: the workers run
  side by side, worker \<open>i\<close> on the i-th address, and the results come back in the order of
  the input. The call returns once every worker is done, so one worker that never returns
  keeps the whole call; when workers raise, the exception of the first of them in the list
  is the one passed on here (no statement below depends on which one it is).
\<close>

fun tp_map ::
  "(nat \<Rightarrow> string \<Rightarrow> (exc + string option) option) \<Rightarrow> nat \<Rightarrow> string list
     \<Rightarrow> (exc + string option list) option" where
  "tp_map f i [] = Some (Inr [])"
| "tp_map f i (ip # ips) =
     (case f i ip of
        None \<Rightarrow> None
      | Some r \<Rightarrow>
          (case tp_map f (Suc i) ips of
             None \<Rightarrow> None
           | Some rs \<Rightarrow>
               (case r of
                  Inl e \<Rightarrow> Some (Inl e)
                | Inr v \<Rightarrow> (case rs of Inl e \<Rightarrow> Some (Inl e) | Inr vs \<Rightarrow> Some (Inr (v # vs))))))"

text \<open>Python's truth value of an entry of \<^verbatim>\<open>up\<close>: \<^verbatim>\<open>None\<close> and the empty string are false.\<close>

fun truthy :: "string option \<Rightarrow> bool" where
  "truthy None = False"
| "truthy (Some ip) = (ip \<noteq> [])"

text \<open>
  \<^verbatim>\<open>check_hosts\<close>. \<open>net i n\<close> is the world of the n-th probe made by worker \<open>i\<close>.
  \<^verbatim>\<open>ThreadPool(min(50, len(ips)))\<close> raises \<^verbatim>\<open>ValueError\<close> for a pool of fewer than one
  worker (the module \<^verbatim>\<open>multiprocessing.pool\<close> is taken to be loaded). The result is
  \<^verbatim>\<open>[ip for ip in up if ip]\<close>.
\<close>

definition check_hosts ::
  "(nat \<Rightarrow> nat \<Rightarrow> net_env) \<Rightarrow> string list \<Rightarrow> int \<Rightarrow> rat option \<Rightarrow> bool \<Rightarrow> int
     \<Rightarrow> (exc + string list) option" where
  "check_hosts net ips port timeout check_with_session retry =
     (if min 50 (length ips) < 1 then Some (Inl ValueError)
      else
        (case tp_map (\<lambda>i ip. check_and_add (net i) ip port timeout check_with_session retry) 0 ips of
           None \<Rightarrow> None
         | Some (Inl e) \<Rightarrow> Some (Inl e)
         | Some (Inr up) \<Rightarrow> Some (Inr (map the (filter truthy up)))))"

section \<open>Execution Monitor\<close>

text \<open>
  Modelled from the spec: the state of a session. The module \<^verbatim>\<open>manager.session\<close> that
  declares \<^verbatim>\<open>SessionStates\<close> is not among the sources; the data model of the specification
  gives the four states below.
\<close>

datatype session_state = SCHEDULED | RUNNING | FINISHED | ERROR

text \<open>
  An entry of the list returned by \<^verbatim>\<open>dc.sessions()\<close>: the session id and, under
  \<^verbatim>\<open>'status'\<close>, a dictionary from participant to state.
\<close>

record session =
  sessionId :: string
  status :: "(string \<times> session_state) list"

text \<open>JSON values, as \<^verbatim>\<open>json.load\<close> reads and \<^verbatim>\<open>json.dump\<close> writes them.\<close>

datatype json =
    JNull
  | JBool bool
  | JNum int
  | JStr string
  | JList "json list"
  | JObj "(string \<times> json) list"

text \<open>
  The for loop inside \<^verbatim>\<open>monitor_execution_finished\<close>: \<open>True\<close> when the function returns
  from within the loop, which it does at the first session whose participants all report
  \<^verbatim>\<open>FINISHED\<close> (\<^verbatim>\<open>all\<close> of an empty list is true).
\<close>

fun sessions_finished :: "session list \<Rightarrow> bool" where
  "sessions_finished [] = False"
| "sessions_finished (session # rest) =
     (if list_all (\<lambda>s. s = FINISHED) (map snd (status session)) then True
      else sessions_finished rest)"

text \<open>
  \<^verbatim>\<open>monitor_execution_finished\<close>. \<open>polls k\<close> is what the k-th call of \<^verbatim>\<open>dc.sessions()\<close>
  answers or raises. The \<^verbatim>\<open>time.sleep\<close> between sessions only delays the next step.
\<close>

partial_function (option) monitor_execution_finished_loop ::
  "(nat \<Rightarrow> exc + session list) \<Rightarrow> nat \<Rightarrow> (exc + unit) option" where
  "monitor_execution_finished_loop polls k =
     (case polls k of
        Inl e \<Rightarrow> Some (Inl e)
      | Inr ss \<Rightarrow>
          if sessions_finished ss then Some (Inr ())
          else monitor_execution_finished_loop polls (Suc k))"

declare monitor_execution_finished_loop.simps [code]

definition monitor_execution_finished :: "(nat \<Rightarrow> exc + session list) \<Rightarrow> (exc + unit) option" where
  "monitor_execution_finished polls = monitor_execution_finished_loop polls 0"

text \<open>
  \<^verbatim>\<open>'%.3f' % x\<close> for a float \<open>x\<close>, given as the rational number that the float is: the
  sign, then the absolute value rounded to a multiple of a thousandth, a tie going to the
  even neighbour, written with all its integer digits, a point and three decimals.
\<close>

definition round_half_even :: "rat \<Rightarrow> int" where
  "round_half_even q =
     (let f = \<lfloor>q\<rfloor>; r = q - of_int f in
      if r < 1 / 2 then f
      else if 1 / 2 < r then f + 1
      else if even f then f else f + 1)"

definition digit :: "nat \<Rightarrow> char" where
  "digit d = ''0123456789'' ! (d mod 10)"

fun show_nat :: "nat \<Rightarrow> string" where
  "show_nat n = (if n < 10 then [digit n] else show_nat (n div 10) @ [digit (n mod 10)])"

declare show_nat.simps [simp del]

definition percent_3f :: "rat \<Rightarrow> string" where
  "percent_3f x =
     (let n = nat (round_half_even (\<bar>x\<bar> * 1000)) in
      (if x < 0 then ''-'' else []) @ show_nat (n div 1000) @ ''.'' @
      [digit (n div 100), digit (n div 10), digit n])"

text \<open>
  The manager as \<^verbatim>\<open>monitor_graph\<close> sees it: the answer of the k-th \<^verbatim>\<open>dc.sessions()\<close>, the
  answers of \<^verbatim>\<open>dc.graph_status\<close> and \<^verbatim>\<open>dc.graph\<close> for a session during poll \<open>k\<close>, and the
  value of \<^verbatim>\<open>time.time()\<close> when the time stamp of the j-th session of poll \<open>k\<close> is taken.
\<close>

record manager =
  sessions :: "nat \<Rightarrow> exc + session list"
  graph_status :: "nat \<Rightarrow> string \<Rightarrow> exc + json"
  graph :: "nat \<Rightarrow> string \<Rightarrow> exc + json"
  time :: "nat \<Rightarrow> nat \<Rightarrow> rat"

text \<open>
  The state of \<^verbatim>\<open>monitor_graph\<close>: the dictionary \<^verbatim>\<open>graph_dict\<close> and the two log files, each a
  list of lines; one \<^verbatim>\<open>json.dump\<close> followed by \<^verbatim>\<open>os.linesep\<close> is one line. Appending to a
  file is taken to succeed.
\<close>

record mon_state =
  graph_dict :: "(string \<times> json) list"
  gfile :: "json list"
  sfile :: "json list"

text \<open>
  The body of the for loop of \<^verbatim>\<open>monitor_graph\<close> for one session. The state reached is
  returned together with the exception, if one was raised on the way.
\<close>

definition monitor_session :: "manager \<Rightarrow> nat \<Rightarrow> nat \<Rightarrow> session \<Rightarrow> mon_state \<Rightarrow> mon_state \<times> exc option" where
  "monitor_session dc k j session st =
     (let ssid = sessionId session in
      case graph_status dc k ssid of
        Inl e \<Rightarrow> (st, Some e)
      | Inr gs \<Rightarrow>
          (let wgs = JObj [(''ssid'', JStr ssid), (''gs'', gs), (''ts'', JStr (percent_3f (time dc k j)))] in
           if map_of (graph_dict st) ssid = None then
             (case graph dc k ssid of
                Inl e \<Rightarrow> (st, Some e)
              | Inr g \<Rightarrow>
                  (let wg = JObj [(''ssid'', JStr ssid), (''g'', g)] in
                   (st\<lparr>graph_dict := AList.update ssid g (graph_dict st),
                       gfile := gfile st @ [wg],
                       sfile := sfile st @ [wgs]\<rparr>, None)))
           else (st\<lparr>sfile := sfile st @ [wgs]\<rparr>, None)))"

fun monitor_sessions :: "manager \<Rightarrow> nat \<Rightarrow> nat \<Rightarrow> session list \<Rightarrow> mon_state \<Rightarrow> mon_state \<times> exc option" where
  "monitor_sessions dc k j [] st = (st, None)"
| "monitor_sessions dc k j (session # rest) st =
     (case monitor_session dc k j session st of
        (st', Some e) \<Rightarrow> (st', Some e)
      | (st', None) \<Rightarrow> monitor_sessions dc k (Suc j) rest st')"

text \<open>
  How a run of \<^verbatim>\<open>monitor_graph\<close> stands after a bounded number of polls: it has returned,
  an exception has ended it, or it is still in its \<^verbatim>\<open>while True\<close> loop.
\<close>

datatype mon_outcome = Returned | Aborted exc | StillPolling

text \<open>
  The \<^verbatim>\<open>while True\<close> loop of \<^verbatim>\<open>monitor_graph\<close>, run for at most \<open>fuel\<close> polls. The loop has no
  \<^verbatim>\<open>return\<close> and no \<^verbatim>\<open>break\<close>.
\<close>

fun monitor_graph_loop :: "manager \<Rightarrow> nat \<Rightarrow> nat \<Rightarrow> mon_state \<Rightarrow> mon_state \<times> mon_outcome" where
  "monitor_graph_loop dc 0 k st = (st, StillPolling)"
| "monitor_graph_loop dc (Suc fuel) k st =
     (case sessions dc k of
        Inl e \<Rightarrow> (st, Aborted e)
      | Inr ss \<Rightarrow>
          (case monitor_sessions dc k 0 ss st of
             (st', Some e) \<Rightarrow> (st', Aborted e)
           | (st', None) \<Rightarrow> monitor_graph_loop dc fuel (Suc k) st'))"

text \<open>
  \<^verbatim>\<open>monitor_graph\<close>: it returns at once when the directory of \<^verbatim>\<open>dump_path\<close> does not exist.
\<close>

definition monitor_graph :: "manager \<Rightarrow> bool \<Rightarrow> nat \<Rightarrow> mon_state \<times> mon_outcome" where
  "monitor_graph dc dump_dir_exists fuel =
     (let st = \<lparr>graph_dict = [], gfile = [], sfile = []\<rparr> in
      if \<not> dump_dir_exists then (st, Returned)
      else monitor_graph_loop dc fuel 0 st)"

text \<open>The keys of a JSON object, in the order written.\<close>

fun json_keys :: "json \<Rightarrow> string list" where
  "json_keys (JObj kvs) = map fst kvs"
| "json_keys _ = []"

text \<open>
  A line of the status log as the loop body writes it: for the j-th session of some poll,
  the id of that session, the answer of \<^verbatim>\<open>dc.graph_status\<close> for it during that poll, and the
  formatted time. A line of the graph log: for a session of some poll, its id and the
  answer of \<^verbatim>\<open>dc.graph\<close> for it during that poll.
\<close>

definition status_record :: "manager \<Rightarrow> json \<Rightarrow> bool" where
  "status_record dc r =
     (\<exists>k j ss gs. sessions dc k = Inr ss \<and> j < length ss \<and>
        graph_status dc k (sessionId (ss ! j)) = Inr gs \<and>
        r = JObj [(''ssid'', JStr (sessionId (ss ! j))), (''gs'', gs),
                  (''ts'', JStr (percent_3f (time dc k j)))])"

definition graph_record :: "manager \<Rightarrow> json \<Rightarrow> bool" where
  "graph_record dc r =
     (\<exists>k j ss g. sessions dc k = Inr ss \<and> j < length ss \<and>
        graph dc k (sessionId (ss ! j)) = Inr g \<and>
        r = JObj [(''ssid'', JStr (sessionId (ss ! j))), (''g'', g)])"

text \<open>The session id that a line carries under \<^verbatim>\<open>ssid\<close>.\<close>

fun record_ssid :: "json \<Rightarrow> string option" where
  "record_ssid (JObj ((k, JStr ssid) # kvs)) = (if k = ''ssid'' then Some ssid else None)"
| "record_ssid _ = None"

text \<open>A text that ends in a point and three decimal digits, after at least one more sign.\<close>

definition is_digit :: "char \<Rightarrow> bool" where
  "is_digit c = (c \<in> set ''0123456789'')"

definition three_decimals :: "string \<Rightarrow> bool" where
  "three_decimals s =
     (case rev s of
        d3 # d2 # d1 # p # w # ws \<Rightarrow> p = CHR ''.'' \<and> is_digit d1 \<and> is_digit d2 \<and> is_digit d3
      | _ \<Rightarrow> False)"

section \<open>Graph Assembler: modify_pg and get_pg\<close>

text \<open>Python's \<^verbatim>\<open>str.split(sep)\<close> for a separator of one character.\<close>

fun split_on :: "char \<Rightarrow> string \<Rightarrow> string list" where
  "split_on sep [] = [[]]"
| "split_on sep (c # cs) =
     (if c = sep then [] # split_on sep cs
      else (case split_on sep cs of
              [] \<Rightarrow> [[c]]
            | w # ws \<Rightarrow> (c # w) # ws))"

text \<open>
  A modifier is a Python function called as \<^verbatim>\<open>func(pgt, *args, **kwargs)\<close> on the graph
  object. It may change that object in place, and it returns a value or raises: given the
  content of the object, the positional and the keyword arguments, a modifier yields the
  content of the object after the call, and the exception raised or the value returned.
\<close>

type_synonym modifier =
  "json \<Rightarrow> string list \<Rightarrow> (string \<times> string) list \<Rightarrow> json \<times> (exc + json)"

text \<open>
  Modelled from the spec: \<^verbatim>\<open>utils.get_symbol\<close>, which is not among the sources. A name is
  resolved against a registry of known modifier functions, and the failure to resolve a name
  is an error, here \<open>SymbolNotFound\<close> with the name.
\<close>

definition get_symbol :: "(string \<Rightarrow> modifier option) \<Rightarrow> string \<Rightarrow> exc + modifier" where
  "get_symbol registry name =
     (case registry name of None \<Rightarrow> Inl (SymbolNotFound name) | Some func \<Rightarrow> Inr func)"

text \<open>
  \<^verbatim>\<open>dict(...)\<close> of a sequence of lists: every element must have exactly two entries, else
  \<^verbatim>\<open>ValueError\<close>; a key given twice keeps its first place and takes its last value.
\<close>

fun pairs_of :: "string list list \<Rightarrow> exc + (string \<times> string) list" where
  "pairs_of [] = Inr []"
| "pairs_of (kv # rest) =
     (case kv of
        [k, v] \<Rightarrow> (case pairs_of rest of Inl e \<Rightarrow> Inl e | Inr ps \<Rightarrow> Inr ((k, v) # ps))
      | _ \<Rightarrow> Inl ValueError)"

definition dict_of :: "string list list \<Rightarrow> exc + (string \<times> string) list" where
  "dict_of kvs =
     (case pairs_of kvs of
        Inl e \<Rightarrow> Inl e
      | Inr ps \<Rightarrow> Inr (fold (\<lambda>(k, v). AList.update k v) ps []))"

text \<open>
  \<^verbatim>\<open>modify_pg\<close>: the name before the first comma is resolved, the remaining parts without
  \<^verbatim>\<open>=\<close> are the positional arguments and those with \<^verbatim>\<open>=\<close> the keyword arguments, and the
  function is called on the graph object. The result is the content of the graph object
  after the call, and the exception raised or the value that \<^verbatim>\<open>modify_pg\<close> returns.
\<close>

definition modify_pg ::
  "(string \<Rightarrow> modifier option) \<Rightarrow> json \<Rightarrow> string \<Rightarrow> json \<times> (exc + json)" where
  "modify_pg registry pgt modifier =
     (let parts = split_on CHR '','' modifier in
      case get_symbol registry (hd parts) of
        Inl e \<Rightarrow> (pgt, Inl e)
      | Inr func \<Rightarrow>
          (let args = filter (\<lambda>x. CHR ''='' \<notin> set x) (tl parts) in
           case dict_of (map (split_on CHR ''='') (filter (\<lambda>x. CHR ''='' \<in> set x) (tl parts))) of
             Inl e \<Rightarrow> (pgt, Inl e)
           | Inr kwargs \<Rightarrow> func pgt args kwargs))"

text \<open>
  The loop \<^verbatim>\<open>for modifier in opts.pg_modifiers.split(':'): modify_pg(pgt, modifier)\<close> of
  \<^verbatim>\<open>get_pg\<close>. The value that \<^verbatim>\<open>modify_pg\<close> returns is not bound to anything; the variable
  \<^verbatim>\<open>pgt\<close> keeps naming the same object, whose content the modifiers may have changed. The
  result is the content of that object when the loop ends, and the exception that ended it,
  if any.
\<close>

fun apply_modifiers ::
  "(string \<Rightarrow> modifier option) \<Rightarrow> string list \<Rightarrow> json \<Rightarrow> json \<times> exc option" where
  "apply_modifiers registry [] pgt = (pgt, None)"
| "apply_modifiers registry (modifier # rest) pgt =
     (case modify_pg registry pgt modifier of
        (pgt', Inl e) \<Rightarrow> (pgt', Some e)
      | (pgt', Inr returned) \<Rightarrow> apply_modifiers registry rest pgt')"

text \<open>
  The pipeline as the specification words it, for comparison: the modifiers run in the
  order of the list and every modifier consumes the value returned by the one before it.
\<close>

fun spec_pipeline :: "(string \<Rightarrow> modifier option) \<Rightarrow> string list \<Rightarrow> json \<Rightarrow> exc + json" where
  "spec_pipeline registry [] pgt = Inr pgt"
| "spec_pipeline registry (modifier # rest) pgt =
     (case snd (modify_pg registry pgt modifier) of
        Inl e \<Rightarrow> Inl e
      | Inr returned \<Rightarrow> spec_pipeline registry rest returned)"

text \<open>The options read by the functions modelled here, as \<^verbatim>\<open>optparse\<close> stores them.\<close>

record options =
  log_dir :: "string option"
  logical_graph :: "string option"
  physical_graph :: "string option"
  pg_modifiers :: "string option"
  check_with_session :: bool
  check_interfaces :: bool
  monitor_host :: "string option"
  num_islands :: int
  loc :: string

text \<open>
  The values of these options when no flag is given: the \<^verbatim>\<open>default\<close> of each
  \<^verbatim>\<open>add_option\<close> call of \<^verbatim>\<open>main\<close>, and \<^verbatim>\<open>None\<close> where the call names no default.
\<close>

definition default_options :: options where
  "default_options =
     \<lparr>log_dir = None, logical_graph = None, physical_graph = None, pg_modifiers = None,
      check_with_session = False, check_interfaces = False, monitor_host = None,
      num_islands = 1, loc = ''Pawsey''\<rparr>"

text \<open>Python's truth value of an optional string: \<^verbatim>\<open>None\<close> and \<^verbatim>\<open>''\<close> are false.\<close>

fun truthy_str :: "string option \<Rightarrow> bool" where
  "truthy_str None = False"
| "truthy_str (Some s) = (s \<noteq> [])"

text \<open>
  What \<^verbatim>\<open>get_pg\<close> calls outside the sources: \<^verbatim>\<open>utils.fname_to_pipname\<close>; the chain
  \<^verbatim>\<open>tool.unroll\<close>, \<^verbatim>\<open>pg_generator.partition\<close>, \<^verbatim>\<open>to_pg_spec\<close> for a logical graph, given the
  numbers of partitions and of islands; \<^verbatim>\<open>json.load\<close> of the physical graph file; the
  registry of modifier functions; the network as the health probes see it; the node
  manager port \<^verbatim>\<open>NODE_DEFAULT_REST_PORT\<close>; \<^verbatim>\<open>tool.resource_map\<close>; and what opening a file
  for writing and dumping a graph into it raises, if anything. The interpreter is part of
  this world.
\<close>

record assembler_world =
  python_version :: python
  fname_to_pipname :: "string \<Rightarrow> string"
  unroll_partition :: "nat \<Rightarrow> nat \<Rightarrow> exc + json"
  load_physical_graph :: "exc + json"
  registry :: "string \<Rightarrow> modifier option"
  network :: "nat \<Rightarrow> nat \<Rightarrow> net_env"
  NODE_DEFAULT_REST_PORT :: int
  resource_map :: "json \<Rightarrow> string list \<Rightarrow> string \<Rightarrow> nat \<Rightarrow> exc + json"
  write_json :: "string \<Rightarrow> json \<Rightarrow> exc option"

text \<open>
  \<^verbatim>\<open>os.path.join\<close> of two parts on a POSIX system. A first part that is \<^verbatim>\<open>None\<close> raises:
  \<^verbatim>\<open>AttributeError\<close> on Python 2, \<^verbatim>\<open>TypeError\<close> on Python 3.
\<close>

definition path_join :: "python \<Rightarrow> string option \<Rightarrow> string \<Rightarrow> exc + string" where
  "path_join py a b =
     (case a of
        None \<Rightarrow> Inl (case py of Python2 \<Rightarrow> AttributeError | Python3 \<Rightarrow> TypeError)
      | Some path \<Rightarrow>
          if b \<noteq> [] \<and> hd b = CHR ''/'' then Inr b
          else if path = [] \<or> last path = CHR ''/'' then Inr (path @ b)
          else Inr (path @ ''/'' @ b))"

text \<open>
  The end of \<^verbatim>\<open>get_pg\<close>: the mapped graph is dumped into \<^verbatim>\<open>pg.json\<close> under the log directory
  and then returned.
\<close>

definition dump_pg :: "assembler_world \<Rightarrow> options \<Rightarrow> json \<Rightarrow> exc + json option" where
  "dump_pg w opts pg =
     (case path_join (python_version w) (log_dir opts) ''pg.json'' of
        Inl e \<Rightarrow> Inl e
      | Inr path \<Rightarrow>
          (case write_json w path pg of
             Some e \<Rightarrow> Inl e
           | None \<Rightarrow> Inr (Some pg)))"

definition DIM_WAIT_TIME :: rat where
  "DIM_WAIT_TIME = 60"

definition MM_WAIT_TIME :: rat where
  "MM_WAIT_TIME = DIM_WAIT_TIME"

text \<open>
  The first half of \<^verbatim>\<open>get_pg\<close>: the graph template, from the logical graph when that option
  is set, else from the physical graph file.
\<close>

definition graph_template :: "assembler_world \<Rightarrow> options \<Rightarrow> string list \<Rightarrow> string list \<Rightarrow> exc + json" where
  "graph_template w opts nms dims =
     (let num_nms = length nms; num_dims = length dims in
      if truthy_str (logical_graph opts) then unroll_partition w (num_nms + num_dims) num_dims
      else load_physical_graph w)"

text \<open>
  \<^verbatim>\<open>get_pg\<close>. Without a graph option it returns \<^verbatim>\<open>None\<close>. \<^verbatim>\<open>opts.pg_modifiers.split\<close> on
  \<^verbatim>\<open>None\<close> raises \<^verbatim>\<open>AttributeError\<close>. \<^verbatim>\<open>check_hosts\<close> is called with its default
  \<^verbatim>\<open>retry=1\<close>.
\<close>

definition get_pg ::
  "assembler_world \<Rightarrow> options \<Rightarrow> string list \<Rightarrow> string list \<Rightarrow> (exc + json option) option" where
  "get_pg w opts nms dims =
     (if \<not> truthy_str (logical_graph opts) \<and> \<not> truthy_str (physical_graph opts)
      then Some (Inr None)
      else
        (let num_dims = length dims;
             pip_name = fname_to_pipname w
               (if truthy_str (logical_graph opts) then the (logical_graph opts)
                else the (physical_graph opts)) in
         case graph_template w opts nms dims of
           Inl e \<Rightarrow> Some (Inl e)
         | Inr pgt \<Rightarrow>
             (case pg_modifiers opts of
                None \<Rightarrow> Some (Inl AttributeError)
              | Some mods \<Rightarrow>
                  (case apply_modifiers (registry w) (split_on CHR '':'' mods) pgt of
                     (pgt', Some e) \<Rightarrow> Some (Inl e)
                   | (pgt', None) \<Rightarrow>
                       (case check_hosts (network w) nms (NODE_DEFAULT_REST_PORT w)
                               (Some MM_WAIT_TIME) (check_with_session opts) 1 of
                          None \<Rightarrow> None
                        | Some (Inl e) \<Rightarrow> Some (Inl e)
                        | Some (Inr nms_up) \<Rightarrow>
                            (case resource_map w pgt' (dims @ nms_up) pip_name num_dims of
                               Inl e \<Rightarrow> Some (Inl e)
                             | Inr pg \<Rightarrow> Some (dump_pg w opts pg)))))))"

section \<open>Interface discovery and the start of main\<close>

text \<open>Python's \<^verbatim>\<open>str.split()\<close> without argument: the words between runs of white space.\<close>

definition is_space :: "char \<Rightarrow> bool" where
  "is_space c = (c \<in> set [CHR '' '', CHR 0x09, CHR 0x0A, CHR 0x0B, CHR 0x0C, CHR 0x0D])"

fun split_ws_from :: "string \<Rightarrow> string \<Rightarrow> string list" where
  "split_ws_from word [] = (if word = [] then [] else [word])"
| "split_ws_from word (c # cs) =
     (if is_space c then (if word = [] then split_ws_from [] cs else word # split_ws_from [] cs)
      else split_ws_from (word @ [c]) cs)"

definition split_ws :: "string \<Rightarrow> string list" where
  "split_ws s = split_ws_from [] s"

text \<open>Indexing a list with a constant; \<open>None\<close> stands for \<^verbatim>\<open>IndexError\<close>.\<close>

definition item :: "'a list \<Rightarrow> nat \<Rightarrow> 'a option" where
  "item xs n = (if n < length xs then Some (xs ! n) else None)"

text \<open>
  What the operating system answers: the output of the command \<^verbatim>\<open>ifconfig\<close> as
  \<^verbatim>\<open>subprocess.check_output\<close> returns it, or the exception it raises, and the address that
  \<^verbatim>\<open>utils.get_local_ip_addr()[0][0]\<close> yields, or the exception raised; and whether a file
  exists. The interpreter is part of this world too.
\<close>

record host_os =
  interpreter :: python
  ifconfig :: "exc + string"
  local_ip_addr :: "exc + string"
  path_exists :: "string \<Rightarrow> bool"

text \<open>
  The \<^verbatim>\<open>try\<close> block of \<^verbatim>\<open>get_ip_via_ifconfig\<close>, on the output of the command and the line
  number \<^verbatim>\<open>ln\<close>: whatever goes wrong while the output is taken apart gives the text
  \<^verbatim>\<open>'None'\<close>. On Python 3 the output is of type bytes, \<^verbatim>\<open>out.split('\n')\<close> with a text
  separator raises \<^verbatim>\<open>TypeError\<close>, and the answer is \<^verbatim>\<open>'None'\<close> for every output.
\<close>

definition ifconfig_address :: "python \<Rightarrow> string \<Rightarrow> nat \<Rightarrow> string" where
  "ifconfig_address py out line_no =
     (case py of
        Python3 \<Rightarrow> ''None''
      | Python2 \<Rightarrow>
          (case item (split_on CHR 0x0A out) line_no of
             None \<Rightarrow> ''None''
           | Some line \<Rightarrow>
               (case item (split_ws line) 1 of
                  None \<Rightarrow> ''None''
                | Some field \<Rightarrow>
                    (case item (split_on CHR '':'' field) 1 of
                       None \<Rightarrow> ''None''
                     | Some addr \<Rightarrow> addr))))"

text \<open>
  \<^verbatim>\<open>get_ip_via_ifconfig\<close>: the command runs outside the \<^verbatim>\<open>try\<close>, and an unknown location
  raises.
\<close>

definition get_ip_via_ifconfig :: "host_os \<Rightarrow> string \<Rightarrow> exc + string" where
  "get_ip_via_ifconfig os location =
     (case ifconfig os of
        Inl e \<Rightarrow> Inl e
      | Inr out \<Rightarrow>
          if location = ''Pawsey'' then Inr (ifconfig_address (interpreter os) out 1)
          else if location = ''Tianhe2'' then Inr (ifconfig_address (interpreter os) out 18)
          else Inl (OtherException ''Unknown deploy location''))"

definition get_ip_via_netifaces :: "host_os \<Rightarrow> string \<Rightarrow> exc + string" where
  "get_ip_via_netifaces os location = local_ip_addr os"

text \<open>
  How \<^verbatim>\<open>main\<close> goes on after the options are parsed: \<^verbatim>\<open>sys.exit\<close> with a status,
  \<^verbatim>\<open>parser.error\<close> with a message (usage on standard error, exit status 2), an exception
  that nothing catches, or the orchestration, which begins at \<^verbatim>\<open>get_remote\<close> and holds every
  call that starts a manager.
\<close>

datatype main_outcome =
    Exit int
  | ParserError string
  | Uncaught exc
  | Orchestration

text \<open>
  \<^verbatim>\<open>main\<close> from the parsed options to the call of \<^verbatim>\<open>get_remote\<close>: the lines printed on
  standard output and how it goes on.
\<close>

definition main :: "host_os \<Rightarrow> options \<Rightarrow> string list \<times> main_outcome" where
  "main os opts =
     (if check_interfaces opts then
        (case get_ip_via_netifaces os [] of
           Inl e \<Rightarrow> ([], Uncaught e)
         | Inr a \<Rightarrow>
             (case get_ip_via_ifconfig os ''Pawsey'' of
                Inl e \<Rightarrow> ([''From netifaces: '' @ a], Uncaught e)
              | Inr b \<Rightarrow> ([''From netifaces: '' @ a, ''From ifconfig: '' @ b], Exit 0)))
      else if truthy_str (logical_graph opts) = truthy_str (physical_graph opts)
      then ([], ParserError ''Either a logical graph or physical graph filename must be specified'')
      else if truthy_str (logical_graph opts) \<and> \<not> path_exists os (the (logical_graph opts))
      then ([], ParserError (''Cannot locate graph file at '' @ [CHR 0x27] @
                               the (logical_graph opts) @ [CHR 0x27]))
      else if truthy_str (physical_graph opts) \<and> \<not> path_exists os (the (physical_graph opts))
      then ([], ParserError (''Cannot locate graph file at '' @ [CHR 0x27] @
                               the (physical_graph opts) @ [CHR 0x27]))
      else if monitor_host opts \<noteq> None \<and> num_islands opts > 1
      then ([], ParserError ''We do not support proxy monitor multiple islands yet'')
      else ([], Orchestration))"

section \<open>Concrete worlds\<close>

text \<open>
  The inputs at which the statements below are evaluated. First the networks: one in which
  every connection attempt to \<open>h2\<close> times out and every other host answers, one in which
  \<open>h2\<close> answers from its second probe on, one in which every host answers, and one in which
  every attempt fails with a given socket error.
\<close>

definition net_h2_down :: "nat \<Rightarrow> nat \<Rightarrow> net_env" where
  "net_h2_down i n =
     \<lparr>clock = (\<lambda>r. 0),
      attempt = (\<lambda>host port data k. if host = ''h2'' then TimedOut else Connected),
      session_probe = (\<lambda>host port. None)\<rparr>"

definition net_h2_late :: "nat \<Rightarrow> nat \<Rightarrow> net_env" where
  "net_h2_late i n =
     \<lparr>clock = (\<lambda>r. 0),
      attempt = (\<lambda>host port data k. if host = ''h2'' \<and> n = 0 then TimedOut else Connected),
      session_probe = (\<lambda>host port. None)\<rparr>"

definition net_all_up :: "nat \<Rightarrow> nat \<Rightarrow> net_env" where
  "net_all_up i n =
     \<lparr>clock = (\<lambda>r. 0),
      attempt = (\<lambda>host port data k. Connected),
      session_probe = (\<lambda>host port. None)\<rparr>"





text \<open>
  Sessions: one whose only participant has finished and one whose participant is still
  running; a manager that reports both at every poll, and a manager with the running
  session alone.
\<close>

definition session_done :: session where
  "session_done = \<lparr>sessionId = ''s1'', status = [(''nm1'', FINISHED)]\<rparr>"

definition session_running :: session where
  "session_running = \<lparr>sessionId = ''s2'', status = [(''nm1'', RUNNING)]\<rparr>"

definition polls_mixed :: "nat \<Rightarrow> exc + session list" where
  "polls_mixed k = Inr [session_done, session_running]"

definition dc_one_session :: manager where
  "dc_one_session =
     \<lparr>sessions = (\<lambda>k. Inr [session_running]),
      graph_status = (\<lambda>k ssid. Inr (JObj [(''drop1'', JNum 2)])),
      graph = (\<lambda>k ssid. Inr (JObj [(''drop1'', JObj [(''oid'', JStr ''drop1'')])])),
      time = (\<lambda>k j. 1461000000 + 1 / 8)\<rparr>"

text \<open>
  Modifiers: \<open>append_drop\<close> works in place, appending its positional arguments to the graph
  object, and returns \<^verbatim>\<open>None\<close>; \<open>emptied\<close> leaves the object alone and returns a new, empty
  graph. The registry knows these two names only.
\<close>

definition append_drop :: modifier where
  "append_drop pgt args kwargs =
     (case pgt of
        JList drops \<Rightarrow> (JList (drops @ map JStr args), Inr JNull)
      | _ \<Rightarrow> (pgt, Inl AttributeError))"

definition emptied :: modifier where
  "emptied pgt args kwargs = (pgt, Inr (JList []))"

definition registry_ex :: "string \<Rightarrow> modifier option" where
  "registry_ex name =
     (if name = ''append_drop'' then Some append_drop
      else if name = ''emptied'' then Some emptied
      else None)"

definition world_ex :: assembler_world where
  "world_ex =
     \<lparr>python_version = Python3,
      fname_to_pipname = (\<lambda>fname. fname),
      unroll_partition = (\<lambda>num_partitions num_islands. Inr (JList [])),
      load_physical_graph = Inr (JList [JStr ''a'']),
      registry = registry_ex,
      network = net_all_up,
      NODE_DEFAULT_REST_PORT = 8000,
      resource_map = (\<lambda>pgt nodes pip_name num_islands.
                        Inr (JObj [(''pg'', pgt), (''nodes'', JList (map JStr nodes))])),
      write_json = (\<lambda>path pg. None)\<rparr>"

definition opts_physical :: options where
  "opts_physical = default_options\<lparr>physical_graph := Some ''pg.json''\<rparr>"

definition opts_logged :: options where
  "opts_logged = opts_physical\<lparr>log_dir := Some ''logs''\<rparr>"

text \<open>
  An operating system whose \<^verbatim>\<open>ifconfig\<close> prints an address on its second line, under
  Python 2, and one on which the command \<^verbatim>\<open>ifconfig\<close> cannot be run.
\<close>

definition os_no_ifconfig :: host_os where
  "os_no_ifconfig =
     \<lparr>interpreter = Python3,
      ifconfig = Inl (OtherException ''OSError''),
      local_ip_addr = Inr ''10.128.0.98'',
      path_exists = (\<lambda>p. False)\<rparr>"

definition os_ex :: host_os where
  "os_ex =
     \<lparr>interpreter = Python2,
      ifconfig = Inr (''eth0  Link encap:Ethernet'' @ [CHR 0x0A] @
                      ''      inet addr:10.128.0.98  Bcast:10.128.0.255'' @ [CHR 0x0A]),
      local_ip_addr = Inr ''10.128.0.98'',
      path_exists = (\<lambda>p. False)\<rparr>"

section \<open>Properties of the Host Health Prober\<close>

subsection \<open>The retry loop\<close>

text \<open>
  A worker returns only if its retry count is 0 or one of its probes does not answer
  \<^verbatim>\<open>False\<close>: the loop never changes \<open>ntries\<close>.
\<close>

lemma check_and_add_loop_no_return:
  assumes "check_and_add_loop envs ip port timeout cws ntries n = Some y"
  shows "ntries = 0 \<or> (\<exists>m. check_host (envs m) ip port timeout cws \<noteq> Some (Inr False))"
proof (rule check_and_add_loop.raw_induct
    [where P = "\<lambda>envs ip port timeout cws ntries n y.
        ntries = 0 \<or> (\<exists>m. check_host (envs m) ip port timeout cws \<noteq> Some (Inr False))",
      OF _ assms])
  fix f envs ip port timeout cws and ntries :: int and n :: nat and y
  assume IH: "\<And>envs ip port timeout cws ntries n y.
      f envs ip port timeout cws ntries n = Some y \<Longrightarrow>
      ntries = 0 \<or> (\<exists>m. check_host (envs m) ip port timeout cws \<noteq> Some (Inr False))"
    and step: "(if ntries \<noteq> 0 then
       (case check_host (envs n) ip port timeout cws of
          None \<Rightarrow> None
        | Some (Inl e) \<Rightarrow> Some (Inl e)
        | Some (Inr up) \<Rightarrow>
            if up then Some (Inr (Some ip))
            else f envs ip port timeout cws (ntries - 0) (Suc n))
     else Some (Inr None)) = Some y"
  show "ntries = 0 \<or> (\<exists>m. check_host (envs m) ip port timeout cws \<noteq> Some (Inr False))"
  proof (cases "check_host (envs n) ip port timeout cws = Some (Inr False)")
    case True
    with step have "ntries = 0 \<or> f envs ip port timeout cws ntries (Suc n) = Some y"
      by (simp split: if_splits)
    with IH show ?thesis by blast
  next
    case False
    then show ?thesis by blast
  qed
qed

lemma check_and_add_loop_diverges:
  assumes "ntries \<noteq> 0" and "\<And>m. check_host (envs m) ip port timeout cws = Some (Inr False)"
  shows "check_and_add_loop envs ip port timeout cws ntries n = None"
proof (cases "check_and_add_loop envs ip port timeout cws ntries n")
  case None then show ?thesis .
next
  case (Some y)
  from check_and_add_loop_no_return[OF Some] assms show ?thesis by blast
qed

text \<open>
  When a worker returns a value, it is \<^verbatim>\<open>None\<close> for a retry count of 0, and else its own
  address after a probe that succeeded.
\<close>

lemma check_and_add_loop_result:
  assumes "check_and_add_loop envs ip port timeout cws ntries n = Some y"
  shows "\<forall>r. y = Inr r \<longrightarrow> (ntries = 0 \<and> r = None) \<or>
         (ntries \<noteq> 0 \<and> r = Some ip \<and> (\<exists>m. check_host (envs m) ip port timeout cws = Some (Inr True)))"
proof (rule check_and_add_loop.raw_induct
    [where P = "\<lambda>envs ip port timeout cws ntries n y.
        \<forall>r. y = Inr r \<longrightarrow> (ntries = 0 \<and> r = None) \<or>
         (ntries \<noteq> 0 \<and> r = Some ip \<and> (\<exists>m. check_host (envs m) ip port timeout cws = Some (Inr True)))",
      OF _ assms])
  fix f envs ip port timeout cws and ntries :: int and n :: nat and y
  assume IH: "\<And>envs ip port timeout cws ntries n y.
      f envs ip port timeout cws ntries n = Some y \<Longrightarrow>
      \<forall>r. y = Inr r \<longrightarrow> (ntries = 0 \<and> r = None) \<or>
         (ntries \<noteq> 0 \<and> r = Some ip \<and> (\<exists>m. check_host (envs m) ip port timeout cws = Some (Inr True)))"
    and step: "(if ntries \<noteq> 0 then
       (case check_host (envs n) ip port timeout cws of
          None \<Rightarrow> None
        | Some (Inl e) \<Rightarrow> Some (Inl e)
        | Some (Inr up) \<Rightarrow>
            if up then Some (Inr (Some ip))
            else f envs ip port timeout cws (ntries - 0) (Suc n))
     else Some (Inr None)) = Some y"
  show "\<forall>r. y = Inr r \<longrightarrow> (ntries = 0 \<and> r = None) \<or>
         (ntries \<noteq> 0 \<and> r = Some ip \<and> (\<exists>m. check_host (envs m) ip port timeout cws = Some (Inr True)))"
  proof (cases "ntries = 0")
    case True
    with step show ?thesis by auto
  next
    case nz: False
    show ?thesis
    proof (cases "check_host (envs n) ip port timeout cws = Some (Inr True)")
      case True
      with step nz show ?thesis by auto
    next
      case False
      with step nz have "(\<exists>e. y = Inl e) \<or> f envs ip port timeout cws ntries (Suc n) = Some y"
        by (auto split: option.splits sum.splits if_splits)
      with IH nz show ?thesis by blast
    qed
  qed
qed

lemma check_and_add_included:
  assumes "check_and_add envs ip port timeout cws retry = Some (Inr v)"
  shows "truthy v \<longleftrightarrow> ip \<noteq> [] \<and> retry \<noteq> 0 \<and>
           (\<exists>n. check_host (envs n) ip port timeout cws = Some (Inr True))"
    and "truthy v \<Longrightarrow> the v = ip"
  using check_and_add_loop_result[OF assms[unfolded check_and_add_def]]
  by auto

subsection \<open>The pool\<close>

lemma tp_map_None:
  assumes "j < length ips" and "f (i + j) (ips ! j) = None"
  shows "tp_map f i ips = None"
  using assms
proof (induction ips arbitrary: i j)
  case Nil
  then show ?case by simp
next
  case (Cons ip ips)
  show ?case
  proof (cases j)
    case 0
    with Cons.prems show ?thesis by simp
  next
    case (Suc j')
    with Cons.prems have "j' < length ips" "f (Suc i + j') (ips ! j') = None" by simp_all
    then have "tp_map f (Suc i) ips = None" by (rule Cons.IH)
    then show ?thesis by (simp split: option.splits)
  qed
qed

lemma tp_map_filter:
  assumes "tp_map (\<lambda>i ip. check_and_add (net i) ip port timeout cws retry) i ips = Some (Inr up)"
  shows "map the (filter truthy up) =
         map snd (filter (\<lambda>(j, ip). ip \<noteq> [] \<and> retry \<noteq> 0 \<and>
                    (\<exists>n. check_host (net j n) ip port timeout cws = Some (Inr True)))
                  (enumerate i ips))"
  using assms
proof (induction ips arbitrary: i up)
  case Nil
  then show ?case by simp
next
  case (Cons ip ips)
  from Cons.prems obtain v vs where
    v: "check_and_add (net i) ip port timeout cws retry = Some (Inr v)" and
    vs: "tp_map (\<lambda>i ip. check_and_add (net i) ip port timeout cws retry) (Suc i) ips = Some (Inr vs)" and
    up: "up = v # vs"
    by (auto split: option.splits sum.splits)
  note IH = Cons.IH[OF vs]
  show ?case
    using IH check_and_add_included[OF v] up by auto
qed

lemma subseq_enumerate_filter: "subseq (map snd (filter P (enumerate i ips))) ips"
proof -
  have "subseq (map snd (filter P (enumerate i ips))) (map snd (enumerate i ips))"
    by (intro subseq_map subseq_filter_left)
  then show ?thesis by (simp add: map_snd_enumerate)
qed

text \<open>
  A worker whose probes answer \<^verbatim>\<open>False\<close> until one answers \<^verbatim>\<open>True\<close> returns its address,
  however late the success comes.
\<close>

lemma check_and_add_loop_succeeds:
  assumes "ntries \<noteq> 0"
    and "check_host (envs (n + d)) ip port timeout cws = Some (Inr True)"
    and "\<And>m. n \<le> m \<Longrightarrow> m < n + d \<Longrightarrow> check_host (envs m) ip port timeout cws = Some (Inr False)"
  shows "check_and_add_loop envs ip port timeout cws ntries n = Some (Inr (Some ip))"
  using assms(2,3)
proof (induction d arbitrary: n)
  case 0
  then show ?case using assms(1) by (subst check_and_add_loop.simps) simp
next
  case (Suc d)
  have f: "check_host (envs n) ip port timeout cws = Some (Inr False)"
    by (rule Suc.prems(2)) simp_all
  have "check_and_add_loop envs ip port timeout cws ntries (Suc n) = Some (Inr (Some ip))"
  proof (rule Suc.IH)
    show "check_host (envs (Suc n + d)) ip port timeout cws = Some (Inr True)"
      using Suc.prems(1) by simp
    show "check_host (envs m) ip port timeout cws = Some (Inr False)"
      if "Suc n \<le> m" "m < Suc n + d" for m
      using that by (intro Suc.prems(2)) simp_all
  qed
  with f assms(1) show ?case by (subst check_and_add_loop.simps) simp
qed

subsection \<open>A host that never answers\<close>

text \<open>
  With a retry count other than 0, one address whose probes all answer \<^verbatim>\<open>False\<close> is enough
  for \<^verbatim>\<open>check_hosts\<close> never to return.
\<close>

lemma check_hosts_never_returns:
  assumes "i < length ips" and "retry \<noteq> 0"
    and "\<And>n. check_host (net i n) (ips ! i) port timeout cws = Some (Inr False)"
  shows "check_hosts net ips port timeout cws retry = None"
proof -
  have "check_and_add (net i) (ips ! i) port timeout cws retry = None"
    unfolding check_and_add_def
    by (rule check_and_add_loop_diverges) (simp_all add: assms)
  then have "tp_map (\<lambda>i ip. check_and_add (net i) ip port timeout cws retry) 0 ips = None"
    using assms(1) by (intro tp_map_None[where j = i]) simp_all
  moreover from assms(1) have "\<not> min 50 (length ips) < 1" by (cases ips) simp_all
  ultimately show ?thesis by (simp add: check_hosts_def)
qed

lemma h2_probe_fails:
  "check_host (net_h2_down i m) ''h2'' port timeout False = Some (Inr False)"
  unfolding check_host_def portIsOpen_def writeToRemotePort_def
  by (subst writeToRemotePort_loop.simps) (simp add: net_h2_down_def)

text \<open>
  C1. The claim: with a retry count of at least 1 a host is kept if one of its first
  \<open>maxAttempts\<close> probes succeeds and dropped after exactly \<open>maxAttempts\<close> failed probes, so
  that for the hosts \<open>h1\<close>, \<open>h2\<close>, \<open>h3\<close> with \<open>h2\<close> failing every probe and a retry count of 2
  the result is \<open>h1\<close>, \<open>h3\<close>. The code: the counter is updated by \<^verbatim>\<open>ntries -= 0\<close>, so the
  worker of \<open>h2\<close> probes for ever and \<^verbatim>\<open>check_hosts\<close> never returns, on every port and with
  every timeout.
\<close>

theorem check_hosts_h2_down_never_returns:
  "check_hosts net_h2_down [''h1'', ''h2'', ''h3''] port timeout False 2 = None"
  by (rule check_hosts_never_returns[where i = 1]) (simp_all add: h2_probe_fails)

subsection \<open>What check_host raises\<close>








subsection \<open>The result of check_hosts\<close>

text \<open>
  When \<^verbatim>\<open>check_hosts\<close> returns a list, that list follows the order of \<open>ips\<close>: it holds, for
  each position, the address there if the address is not the empty string and a probe made
  for that position succeeded.
\<close>

lemma check_hosts_result:
  assumes "check_hosts net ips port timeout cws retry = Some (Inr res)"
  shows "subseq res ips \<and>
         res = map snd (filter (\<lambda>(i, ip). ip \<noteq> [] \<and> retry \<noteq> 0 \<and>
                    (\<exists>n. check_host (net i n) ip port timeout cws = Some (Inr True)))
                  (enumerate 0 ips))"
proof -
  from assms obtain up where
    up: "tp_map (\<lambda>i ip. check_and_add (net i) ip port timeout cws retry) 0 ips = Some (Inr up)"
    and res: "res = map the (filter truthy up)"
    by (auto simp: check_hosts_def split: if_splits option.splits sum.splits)
  from tp_map_filter[OF up] res show ?thesis
    by (simp add: subseq_enumerate_filter)
qed

text \<open>
  The last line, \<^verbatim>\<open>[ip for ip in up if ip]\<close>, drops every false value: an address that is
  the empty string is left out although its probe succeeds.
\<close>

lemma check_hosts_drops_empty_address:
  "check_host (net_all_up 0 0) [] 8000 None False = Some (Inr True)
   \<and> check_hosts net_all_up [[]] 8000 None False 1 = Some (Inr [])"
  by (simp add: check_hosts_def check_and_add_def check_and_add_loop.simps check_host_def
      portIsOpen_def writeToRemotePort_def writeToRemotePort_loop.simps net_all_up_def)



text \<open>
  C10. \<^verbatim>\<open>check_hosts\<close> on the empty list raises: the pool of \<^verbatim>\<open>min(50, 0) = 0\<close> workers is
  refused with \<^verbatim>\<open>ValueError\<close>, and no empty list is returned.
\<close>

theorem check_hosts_empty:
  "check_hosts net [] port timeout cws retry = Some (Inl ValueError)"
  by (simp add: check_hosts_def)

section \<open>Properties of the Execution Monitor\<close>

subsection \<open>When the loops end\<close>

text \<open>
  \<^verbatim>\<open>monitor_execution_finished\<close> returns or raises only if some poll raises or some poll
  holds a session whose participants have all finished.
\<close>

lemma monitor_execution_finished_loop_returns:
  assumes "monitor_execution_finished_loop polls k = Some y"
  shows "(\<exists>j e. polls j = Inl e) \<or> (\<exists>j ss. polls j = Inr ss \<and> sessions_finished ss)"
proof (rule monitor_execution_finished_loop.raw_induct
    [where P = "\<lambda>polls k y. (\<exists>j e. polls j = Inl e) \<or> (\<exists>j ss. polls j = Inr ss \<and> sessions_finished ss)",
      OF _ assms])
  fix f polls and k :: nat and y
  assume IH: "\<And>polls k y. f polls k = Some y \<Longrightarrow>
      (\<exists>j e. polls j = Inl e) \<or> (\<exists>j ss. polls j = Inr ss \<and> sessions_finished ss)"
    and step: "(case polls k of
        Inl e \<Rightarrow> Some (Inl e)
      | Inr ss \<Rightarrow>
          if sessions_finished ss then Some (Inr ())
          else f polls (Suc k)) = Some y"
  show "(\<exists>j e. polls j = Inl e) \<or> (\<exists>j ss. polls j = Inr ss \<and> sessions_finished ss)"
  proof (cases "polls k")
    case (Inl e)
    then show ?thesis by blast
  next
    case (Inr ss)
    show ?thesis
    proof (cases "sessions_finished ss")
      case True
      with Inr show ?thesis by blast
    next
      case False
      with step Inr have "f polls (Suc k) = Some y" by simp
      then show ?thesis by (rule IH)
    qed
  qed
qed

lemma sessions_finished_iff:
  "sessions_finished ss \<longleftrightarrow> (\<exists>s \<in> set ss. \<forall>p \<in> set (status s). snd p = FINISHED)"
  by (induction ss) (auto simp: list_all_iff)

text \<open>The loop of \<^verbatim>\<open>monitor_graph\<close> never returns: only an exception ends it.\<close>

lemma monitor_graph_loop_never_returns:
  "snd (monitor_graph_loop dc fuel k st) \<noteq> Returned"
  by (induction fuel arbitrary: k st) (auto split: sum.splits prod.splits option.splits)

lemma monitor_graph_never_returns:
  "dump_dir_exists \<Longrightarrow> snd (monitor_graph dc dump_dir_exists fuel) \<noteq> Returned"
  by (simp add: monitor_graph_def monitor_graph_loop_never_returns)

text \<open>
  A first poll that holds one session whose participants have all finished ends
  \<^verbatim>\<open>monitor_execution_finished\<close>, whatever the other sessions of that poll report.
\<close>

lemma monitor_execution_finished_first_poll:
  assumes "polls 0 = Inr ss" and "sessions_finished ss"
  shows "monitor_execution_finished polls = Some (Inr ())"
  using assms
  by (simp add: monitor_execution_finished_def monitor_execution_finished_loop.simps)

text \<open>
  C2. The claim: the poll loop ends if and only if every session observed reports
  \<^verbatim>\<open>FINISHED\<close>, and one session that is not finished among finished ones keeps it running.
  The code: \<^verbatim>\<open>monitor_execution_finished\<close> returns at the first session whose participants
  have all finished; with the finished session \<open>s1\<close> and the running session \<open>s2\<close> reported
  at every poll it returns during the first poll.
\<close>

theorem monitor_execution_finished_returns_early:
  "polls_mixed 0 = Inr [session_done, session_running]
   \<and> status session_running = [(''nm1'', RUNNING)]
   \<and> monitor_execution_finished polls_mixed = Some (Inr ())"
  by (simp add: monitor_execution_finished_def monitor_execution_finished_loop.simps
      polls_mixed_def session_done_def session_running_def)

subsection \<open>The lines of the two logs\<close>

text \<open>
  What holds of the state of \<^verbatim>\<open>monitor_graph\<close> all along: every line of the status log and
  every line of the graph log was written for a session of some poll, with the answers of the
  manager during that poll, and the graph log has one line for each key of \<^verbatim>\<open>graph_dict\<close>,
  in the same order.
\<close>

lemma update_new_key:
  "k \<notin> fst ` set al \<Longrightarrow> AList.update k v al = al @ [(k, v)]"
  by (induction al) auto

lemma monitor_session_logs:
  assumes "monitor_session dc k j (ss ! j) st = (st', x)"
    and "sessions dc k = Inr ss" and "j < length ss"
    and "\<forall>r \<in> set (sfile st). status_record dc r"
    and "\<forall>r \<in> set (gfile st). graph_record dc r"
    and "map record_ssid (gfile st) = map (\<lambda>p. Some (fst p)) (graph_dict st)"
    and "distinct (map fst (graph_dict st))"
  shows "(\<forall>r \<in> set (sfile st'). status_record dc r) \<and>
         (\<forall>r \<in> set (gfile st'). graph_record dc r) \<and>
         map record_ssid (gfile st') = map (\<lambda>p. Some (fst p)) (graph_dict st') \<and>
         distinct (map fst (graph_dict st'))"
proof (cases "graph_status dc k (sessionId (ss ! j))")
  case (Inl e)
  with assms(1) have "st' = st" by (simp add: monitor_session_def)
  with assms(4-7) show ?thesis by simp
next
  case gs: (Inr gs)
  have sr: "status_record dc (JObj [(''ssid'', JStr (sessionId (ss ! j))), (''gs'', gs),
                  (''ts'', JStr (percent_3f (time dc k j)))])"
    unfolding status_record_def using assms(2,3) gs by blast
  show ?thesis
  proof (cases "map_of (graph_dict st) (sessionId (ss ! j)) = None")
    case False
    with assms(1) gs have "st' = st\<lparr>sfile := sfile st @
        [JObj [(''ssid'', JStr (sessionId (ss ! j))), (''gs'', gs),
                  (''ts'', JStr (percent_3f (time dc k j)))]]\<rparr>"
      by (simp add: monitor_session_def Let_def)
    with assms(4-7) sr show ?thesis by auto
  next
    case new: True
    then have notin: "sessionId (ss ! j) \<notin> fst ` set (graph_dict st)"
      by (simp add: map_of_eq_None_iff)
    show ?thesis
    proof (cases "graph dc k (sessionId (ss ! j))")
      case (Inl e)
      with assms(1) gs new have "st' = st" by (simp add: monitor_session_def Let_def)
      with assms(4-7) show ?thesis by simp
    next
      case g: (Inr g)
      have gr: "graph_record dc (JObj [(''ssid'', JStr (sessionId (ss ! j))), (''g'', g)])"
        unfolding graph_record_def using assms(2,3) g by blast
      from assms(1) gs new g have st': "st' = st\<lparr>
          graph_dict := AList.update (sessionId (ss ! j)) g (graph_dict st),
          gfile := gfile st @ [JObj [(''ssid'', JStr (sessionId (ss ! j))), (''g'', g)]],
          sfile := sfile st @ [JObj [(''ssid'', JStr (sessionId (ss ! j))), (''gs'', gs),
                  (''ts'', JStr (percent_3f (time dc k j)))]]\<rparr>"
        by (simp add: monitor_session_def Let_def)
      have upd: "AList.update (sessionId (ss ! j)) g (graph_dict st)
                   = graph_dict st @ [(sessionId (ss ! j), g)]"
        using notin by (rule update_new_key)
      show ?thesis
        using assms(4-7) sr gr notin unfolding st' upd by auto
    qed
  qed
qed

lemma drop_eq_ConsD:
  assumes "drop j xs = x # rest"
  shows "j < length xs \<and> xs ! j = x \<and> drop (Suc j) xs = rest"
proof -
  from assms have j: "j < length xs" by (cases "j < length xs") simp_all
  from Cons_nth_drop_Suc[OF j] assms show ?thesis using j by simp
qed

lemma monitor_sessions_logs:
  assumes "monitor_sessions dc k j rest st = (st', x)"
    and "sessions dc k = Inr ss" and "rest = drop j ss"
    and "\<forall>r \<in> set (sfile st). status_record dc r"
    and "\<forall>r \<in> set (gfile st). graph_record dc r"
    and "map record_ssid (gfile st) = map (\<lambda>p. Some (fst p)) (graph_dict st)"
    and "distinct (map fst (graph_dict st))"
  shows "(\<forall>r \<in> set (sfile st'). status_record dc r) \<and>
         (\<forall>r \<in> set (gfile st'). graph_record dc r) \<and>
         map record_ssid (gfile st') = map (\<lambda>p. Some (fst p)) (graph_dict st') \<and>
         distinct (map fst (graph_dict st'))"
  using assms(1,3-7)
proof (induction rest arbitrary: j st)
  case Nil
  then show ?case by simp
next
  case (Cons s rest)
  from drop_eq_ConsD[OF Cons.prems(2)[symmetric]]
  have j: "j < length ss" and s: "ss ! j = s" and rest: "rest = drop (Suc j) ss" by simp_all
  obtain st1 x1 where s1: "monitor_session dc k j (ss ! j) st = (st1, x1)"
    by (cases "monitor_session dc k j (ss ! j) st")
  note ok1 = monitor_session_logs[OF s1 assms(2) j Cons.prems(3-6)]
  show ?case
  proof (cases x1)
    case None
    with Cons.prems(1) s1 s have "monitor_sessions dc k (Suc j) rest st1 = (st', x)" by simp
    from Cons.IH[OF this rest] ok1 show ?thesis by blast
  next
    case (Some e)
    with Cons.prems(1) s1 s have "st' = st1" by simp
    with ok1 show ?thesis by simp
  qed
qed

lemma monitor_graph_loop_logs:
  assumes "monitor_graph_loop dc fuel k st = (st', x)"
    and "\<forall>r \<in> set (sfile st). status_record dc r"
    and "\<forall>r \<in> set (gfile st). graph_record dc r"
    and "map record_ssid (gfile st) = map (\<lambda>p. Some (fst p)) (graph_dict st)"
    and "distinct (map fst (graph_dict st))"
  shows "(\<forall>r \<in> set (sfile st'). status_record dc r) \<and>
         (\<forall>r \<in> set (gfile st'). graph_record dc r) \<and>
         map record_ssid (gfile st') = map (\<lambda>p. Some (fst p)) (graph_dict st') \<and>
         distinct (map fst (graph_dict st'))"
  using assms
proof (induction fuel arbitrary: k st)
  case 0
  then show ?case by simp
next
  case (Suc fuel)
  show ?case
  proof (cases "sessions dc k")
    case (Inl e)
    with Suc.prems show ?thesis by simp
  next
    case (Inr ss)
    obtain st1 x1 where s1: "monitor_sessions dc k 0 ss st = (st1, x1)"
      by (cases "monitor_sessions dc k 0 ss st")
    have d: "ss = drop 0 ss" by simp
    note ok1 = monitor_sessions_logs[OF s1 Inr d Suc.prems(2-5)]
    show ?thesis
    proof (cases x1)
      case None
      with Suc.prems(1) Inr s1 have "monitor_graph_loop dc fuel (Suc k) st1 = (st', x)" by simp
      from Suc.IH[OF this] ok1 show ?thesis by blast
    next
      case (Some e)
      with Suc.prems(1) Inr s1 have "st' = st1" by simp
      with ok1 show ?thesis by simp
    qed
  qed
qed

text \<open>The text of a time stamp ends in a point and three decimal digits.\<close>

lemma digit_is_digit: "is_digit (digit d)"
proof -
  have "d mod 10 < length ''0123456789''" by simp
  then show ?thesis unfolding is_digit_def digit_def by (rule nth_mem)
qed

lemma show_nat_not_Nil: "show_nat n \<noteq> []"
  by (subst show_nat.simps) simp

lemma three_decimals_percent_3f: "three_decimals (percent_3f x)"
proof -
  obtain w ws where "rev (show_nat (nat (round_half_even (\<bar>x\<bar> * 1000)) div 1000)) = w # ws"
    using show_nat_not_Nil
    by (cases "rev (show_nat (nat (round_half_even (\<bar>x\<bar> * 1000)) div 1000))") auto
  then show ?thesis
    by (simp add: three_decimals_def percent_3f_def Let_def digit_is_digit)
qed

text \<open>
  C6, as the code has it. After any number of polls, every line of the status log is the
  JSON object written for a session of some poll: the id of that session under \<^verbatim>\<open>ssid\<close>, the
  manager's graph status of that session under \<^verbatim>\<open>gs\<close>, and under \<^verbatim>\<open>ts\<close> the time as a string,
  formatted with three decimals. Every line of the graph log is the JSON object with the id
  of a session of some poll under \<^verbatim>\<open>ssid\<close> and the manager's graph of that session under
  \<^verbatim>\<open>g\<close>, and nothing else; no session id has two lines in the graph log.
\<close>

theorem monitor_graph_records:
  "(\<forall>r \<in> set (sfile (fst (monitor_graph dc dump_dir_exists fuel))). status_record dc r) \<and>
   (\<forall>r \<in> set (gfile (fst (monitor_graph dc dump_dir_exists fuel))). graph_record dc r) \<and>
   distinct (map record_ssid (gfile (fst (monitor_graph dc dump_dir_exists fuel)))) \<and>
   three_decimals (percent_3f x)"
proof (cases dump_dir_exists)
  case False
  then show ?thesis by (simp add: monitor_graph_def three_decimals_percent_3f)
next
  case True
  obtain st' y where
    l: "monitor_graph_loop dc fuel 0 \<lparr>graph_dict = [], gfile = [], sfile = []\<rparr> = (st', y)"
    by (cases "monitor_graph_loop dc fuel 0 \<lparr>graph_dict = [], gfile = [], sfile = []\<rparr>")
  have ok: "(\<forall>r \<in> set (sfile st'). status_record dc r) \<and>
         (\<forall>r \<in> set (gfile st'). graph_record dc r) \<and>
         map record_ssid (gfile st') = map (\<lambda>p. Some (fst p)) (graph_dict st') \<and>
         distinct (map fst (graph_dict st'))"
    by (rule monitor_graph_loop_logs[OF l]) simp_all
  then have "distinct (map record_ssid (gfile st'))"
    by (simp add: distinct_map inj_on_def)
  with ok True l show ?thesis by (simp add: monitor_graph_def three_decimals_percent_3f)
qed

lemma ts_example: "percent_3f (11688000001 / 8) = ''1461000000.125''"
  by (simp add: percent_3f_def round_half_even_def Let_def show_nat.simps digit_def)

lemma sfile_example:
  "sfile (fst (monitor_graph dc_one_session True 2)) =
     [JObj [(''ssid'', JStr ''s2''), (''gs'', JObj [(''drop1'', JNum 2)]),
            (''ts'', JStr ''1461000000.125'')],
      JObj [(''ssid'', JStr ''s2''), (''gs'', JObj [(''drop1'', JNum 2)]),
            (''ts'', JStr ''1461000000.125'')]]"
  by (simp add: monitor_graph_def monitor_session_def dc_one_session_def session_running_def
      Let_def eval_nat_numeral ts_example)

lemma gfile_example:
  "gfile (fst (monitor_graph dc_one_session True 2)) =
     [JObj [(''ssid'', JStr ''s2''), (''g'', JObj [(''drop1'', JObj [(''oid'', JStr ''drop1'')])])]]"
  by (simp add: monitor_graph_def monitor_session_def dc_one_session_def session_running_def
      Let_def eval_nat_numeral ts_example)

theorem monitor_graph_records_witness:
  "JObj [(''ssid'', JStr ''s2''), (''gs'', JObj [(''drop1'', JNum 2)]),
         (''ts'', JStr ''1461000000.125'')]
     \<in> set (sfile (fst (monitor_graph dc_one_session True 2))) \<and>
   status_record dc_one_session
     (JObj [(''ssid'', JStr ''s2''), (''gs'', JObj [(''drop1'', JNum 2)]),
            (''ts'', JStr ''1461000000.125'')]) \<and>
   JObj [(''ssid'', JStr ''s2''), (''g'', JObj [(''drop1'', JObj [(''oid'', JStr ''drop1'')])])]
     \<in> set (gfile (fst (monitor_graph dc_one_session True 2))) \<and>
   graph_record dc_one_session
     (JObj [(''ssid'', JStr ''s2''), (''g'', JObj [(''drop1'', JObj [(''oid'', JStr ''drop1'')])])])"
  using monitor_graph_records[of dc_one_session True 2] sfile_example gfile_example by simp

text \<open>
  C6 as claimed fails: the line written to the graph log for a session has the keys
  \<^verbatim>\<open>ssid\<close> and \<^verbatim>\<open>g\<close> and no time stamp, and the time stamp of a line of the status log is a
  string, not a number.
\<close>

theorem monitor_graph_record_no_timestamp:
  "map json_keys (gfile (fst (monitor_graph dc_one_session True 2))) = [[''ssid'', ''g'']] \<and>
   sfile (fst (monitor_graph dc_one_session True 2)) =
     [JObj [(''ssid'', JStr ''s2''), (''gs'', JObj [(''drop1'', JNum 2)]),
            (''ts'', JStr ''1461000000.125'')],
      JObj [(''ssid'', JStr ''s2''), (''gs'', JObj [(''drop1'', JNum 2)]),
            (''ts'', JStr ''1461000000.125'')]]"
  by (simp add: sfile_example gfile_example)

section \<open>Properties of the Graph Assembler\<close>

lemma split_on_not_Nil: "split_on sep s \<noteq> []"
  by (induction s) (auto split: list.splits)

text \<open>
  A run of the loop that no modifier ends with an exception leaves the graph object as the
  in-place changes of the modifiers, made one after the other, leave it.
\<close>

lemma apply_modifiers_fold:
  assumes "snd (apply_modifiers reg ms G) = None"
  shows "fst (apply_modifiers reg ms G) = fold (\<lambda>m g. fst (modify_pg reg g m)) ms G"
  using assms
proof (induction ms arbitrary: G)
  case Nil
  then show ?case by simp
next
  case (Cons m ms)
  obtain G1 r where m: "modify_pg reg G m = (G1, r)" by (cases "modify_pg reg G m")
  show ?case
  proof (cases r)
    case (Inl e)
    with Cons.prems m show ?thesis by simp
  next
    case (Inr v)
    with Cons.prems m have "snd (apply_modifiers reg ms G1) = None" by simp
    from Cons.IH[OF this] m Inr show ?thesis by simp
  qed
qed

lemma apply_modifiers_append:
  assumes "snd (apply_modifiers reg pre G) = None"
  shows "apply_modifiers reg (pre @ rest) G = apply_modifiers reg rest (fst (apply_modifiers reg pre G))"
  using assms
proof (induction pre arbitrary: G)
  case Nil
  then show ?case by simp
next
  case (Cons m ms)
  obtain G1 r where m: "modify_pg reg G m = (G1, r)" by (cases "modify_pg reg G m")
  show ?case
  proof (cases r)
    case (Inl e)
    with Cons.prems m show ?thesis by simp
  next
    case (Inr v)
    with Cons.prems m have "snd (apply_modifiers reg ms G1) = None" by simp
    from Cons.IH[OF this] m Inr show ?thesis by simp
  qed
qed

lemma modify_pg_unknown:
  assumes "reg (hd (split_on CHR '','' bad)) = None"
  shows "modify_pg reg G bad = (G, Inl (SymbolNotFound (hd (split_on CHR '','' bad))))"
  using assms by (simp add: modify_pg_def get_symbol_def Let_def)

text \<open>
  The dump at the end of \<^verbatim>\<open>get_pg\<close> raises when no log directory was given, and else
  returns the graph if the file could be written.
\<close>

lemma dump_pg_without_log_dir:
  "log_dir opts = None \<Longrightarrow>
   dump_pg w opts pg = Inl (case python_version w of Python2 \<Rightarrow> AttributeError
                                                    | Python3 \<Rightarrow> TypeError)"
  by (simp add: dump_pg_def path_join_def)

text \<open>
  C3, as the code has it. When a graph is asked for, the template is \<open>G\<close>, no modifier
  raises and the health check returns, \<^verbatim>\<open>get_pg\<close> hands to \<^verbatim>\<open>resource_map\<close> the graph object
  \<open>G\<close> as the modifiers have changed it in place, applied in the order of the list, every
  modifier finding the object as the one before left it. The values that the modifiers
  return take no part. What \<^verbatim>\<open>resource_map\<close> makes of that graph is then dumped and
  returned.
\<close>

theorem get_pg_maps_modified_object:
  assumes "truthy_str (logical_graph opts) \<or> truthy_str (physical_graph opts)"
    and "graph_template w opts nms dims = Inr G"
    and "pg_modifiers opts = Some mods"
    and "snd (apply_modifiers (registry w) (split_on CHR '':'' mods) G) = None"
    and "check_hosts (network w) nms (NODE_DEFAULT_REST_PORT w) (Some MM_WAIT_TIME)
           (check_with_session opts) 1 = Some (Inr nms_up)"
  shows "get_pg w opts nms dims =
         Some (case resource_map w
                  (fold (\<lambda>m g. fst (modify_pg (registry w) g m)) (split_on CHR '':'' mods) G)
                  (dims @ nms_up)
                  (fname_to_pipname w
                     (if truthy_str (logical_graph opts) then the (logical_graph opts)
                      else the (physical_graph opts)))
                  (length dims) of
                 Inl e \<Rightarrow> Inl e
               | Inr pg \<Rightarrow> dump_pg w opts pg)"
proof -
  obtain G' where a: "apply_modifiers (registry w) (split_on CHR '':'' mods) G = (G', None)"
    using assms(4) by (cases "apply_modifiers (registry w) (split_on CHR '':'' mods) G") simp
  from apply_modifiers_fold[OF assms(4)] a
  have G': "G' = fold (\<lambda>m g. fst (modify_pg (registry w) g m)) (split_on CHR '':'' mods) G" by simp
  show ?thesis
    unfolding get_pg_def Let_def
    using assms(1,2,3,5) a G'
    by (cases "resource_map w G' (dims @ nms_up)
              (fname_to_pipname w (if truthy_str (logical_graph opts) then the (logical_graph opts)
                                   else the (physical_graph opts)))
              (length dims)") auto
qed

theorem get_pg_maps_modified_object_witness:
  "get_pg world_ex (opts_logged\<lparr>pg_modifiers := Some ''append_drop,x:append_drop,y''\<rparr>)
     [''nm1''] [''dim1''] =
   Some (Inr (Some (JObj [(''pg'', JList [JStr ''a'', JStr ''x'', JStr ''y'']),
                          (''nodes'', JList [JStr ''dim1'', JStr ''nm1''])])))"
proof -
  let ?opts = "opts_logged\<lparr>pg_modifiers := Some ''append_drop,x:append_drop,y''\<rparr>"
  let ?pg = "JObj [(''pg'', JList [JStr ''a'', JStr ''x'', JStr ''y'']),
                   (''nodes'', JList [JStr ''dim1'', JStr ''nm1''])]"
  have 1: "truthy_str (logical_graph ?opts) \<or> truthy_str (physical_graph ?opts)"
    by (simp add: opts_logged_def opts_physical_def default_options_def)
  have 2: "graph_template world_ex ?opts [''nm1''] [''dim1''] = Inr (JList [JStr ''a''])"
    by (simp add: graph_template_def world_ex_def opts_logged_def opts_physical_def
        default_options_def)
  have 3: "pg_modifiers ?opts = Some ''append_drop,x:append_drop,y''" by simp
  have 4: "snd (apply_modifiers (registry world_ex)
             (split_on CHR '':'' ''append_drop,x:append_drop,y'') (JList [JStr ''a''])) = None"
    by code_simp
  have 5: "check_hosts (network world_ex) [''nm1''] (NODE_DEFAULT_REST_PORT world_ex)
             (Some MM_WAIT_TIME) (check_with_session ?opts) 1 = Some (Inr [''nm1''])"
    by code_simp
  have 6: "resource_map world_ex
              (fold (\<lambda>m g. fst (modify_pg (registry world_ex) g m))
                 (split_on CHR '':'' ''append_drop,x:append_drop,y'') (JList [JStr ''a'']))
              ([''dim1''] @ [''nm1''])
              (fname_to_pipname world_ex
                 (if truthy_str (logical_graph ?opts) then the (logical_graph ?opts)
                  else the (physical_graph ?opts)))
              (length [''dim1'']) = Inr ?pg"
    by code_simp
  have 7: "dump_pg world_ex ?opts ?pg = Inr (Some ?pg)"
    by code_simp
  from get_pg_maps_modified_object[OF 1 2 3 4 5] 6 7 show ?thesis by simp
qed

text \<open>
  C3 as claimed fails: for a modifier that returns a new graph and leaves its argument
  alone, the graph that is resource-mapped is the template itself, not the graph that the
  modifier returned.
\<close>

theorem get_pg_drops_returned_graph:
  "get_pg world_ex (opts_logged\<lparr>pg_modifiers := Some ''emptied''\<rparr>) [''nm1''] [''dim1''] =
     Some (Inr (Some (JObj [(''pg'', JList [JStr ''a'']),
                            (''nodes'', JList [JStr ''dim1'', JStr ''nm1''])])))
   \<and> spec_pipeline registry_ex [''emptied''] (JList [JStr ''a'']) = Inr (JList [])"
  by code_simp

text \<open>
  C4, as the code has it. Names are resolved one modifier at a time, inside the loop. When
  the modifiers before the first unknown name run without raising, they have been applied
  to the graph object by the time the unknown name is met; the loop then ends with the
  resolution error, no later modifier runs, and \<^verbatim>\<open>get_pg\<close> raises that error.
\<close>

theorem unknown_modifier_detected_in_turn:
  assumes "truthy_str (logical_graph opts) \<or> truthy_str (physical_graph opts)"
    and "graph_template w opts nms dims = Inr G"
    and "pg_modifiers opts = Some mods"
    and "split_on CHR '':'' mods = pre @ bad # post"
    and "snd (apply_modifiers (registry w) pre G) = None"
    and "registry w (hd (split_on CHR '','' bad)) = None"
  shows "apply_modifiers (registry w) (pre @ bad # post) G =
           (fold (\<lambda>m g. fst (modify_pg (registry w) g m)) pre G,
            Some (SymbolNotFound (hd (split_on CHR '','' bad))))
         \<and> get_pg w opts nms dims = Some (Inl (SymbolNotFound (hd (split_on CHR '','' bad))))"
proof -
  have a: "apply_modifiers (registry w) (pre @ bad # post) G =
           (fold (\<lambda>m g. fst (modify_pg (registry w) g m)) pre G,
            Some (SymbolNotFound (hd (split_on CHR '','' bad))))"
    using apply_modifiers_append[OF assms(5), of "bad # post"] apply_modifiers_fold[OF assms(5)]
      modify_pg_unknown[of "registry w" bad, OF assms(6)]
    by simp
  from assms(1) have c: "\<not> (\<not> truthy_str (logical_graph opts) \<and> \<not> truthy_str (physical_graph opts))"
    by blast
  have "get_pg w opts nms dims = Some (Inl (SymbolNotFound (hd (split_on CHR '','' bad))))"
    unfolding get_pg_def Let_def
    using c assms(2,3,4) a by simp
  with a show ?thesis by blast
qed

theorem unknown_modifier_detected_in_turn_witness:
  "apply_modifiers registry_ex [''append_drop,x'', ''nosuch'', ''emptied''] (JList [JStr ''a'']) =
     (JList [JStr ''a'', JStr ''x''], Some (SymbolNotFound ''nosuch''))
   \<and> get_pg world_ex (opts_physical\<lparr>pg_modifiers := Some ''append_drop,x:nosuch:emptied''\<rparr>)
        [''nm1''] [''dim1''] = Some (Inl (SymbolNotFound ''nosuch''))"
proof -
  let ?opts = "opts_physical\<lparr>pg_modifiers := Some ''append_drop,x:nosuch:emptied''\<rparr>"
  have 1: "truthy_str (logical_graph ?opts) \<or> truthy_str (physical_graph ?opts)"
    by (simp add: opts_physical_def default_options_def)
  have 2: "graph_template world_ex ?opts [''nm1''] [''dim1''] = Inr (JList [JStr ''a''])"
    by (simp add: graph_template_def world_ex_def opts_physical_def default_options_def)
  have 3: "pg_modifiers ?opts = Some ''append_drop,x:nosuch:emptied''" by simp
  have 4: "split_on CHR '':'' ''append_drop,x:nosuch:emptied'' = [''append_drop,x''] @ ''nosuch'' # [''emptied'']"
    by code_simp
  have 5: "snd (apply_modifiers (registry world_ex) [''append_drop,x''] (JList [JStr ''a''])) = None"
    by code_simp
  have 6: "registry world_ex (hd (split_on CHR '','' ''nosuch'')) = None"
    by code_simp
  have 7: "fold (\<lambda>m g. fst (modify_pg (registry world_ex) g m)) [''append_drop,x''] (JList [JStr ''a''])
       = JList [JStr ''a'', JStr ''x'']"
    by code_simp
  have 8: "hd (split_on CHR '','' ''nosuch'') = ''nosuch''" by code_simp
  have 9: "registry world_ex = registry_ex" by (simp add: world_ex_def)
  from unknown_modifier_detected_in_turn[OF 1 2 3 4 5 6] 7 8 9 show ?thesis by simp
qed

text \<open>
  C4 as claimed fails: with a known modifier before an unknown name, the known modifier
  has changed the graph when the error is raised.
\<close>

theorem unknown_modifier_after_applied_one:
  "apply_modifiers registry_ex (split_on CHR '':'' ''append_drop,x:nosuch'') (JList []) =
     (JList [JStr ''x''], Some (SymbolNotFound ''nosuch''))"
  by code_simp

text \<open>
  C9. With \<^verbatim>\<open>--pg-modifiers\<close> left at its default \<^verbatim>\<open>None\<close>, a call of \<^verbatim>\<open>get_pg\<close> for which a
  graph is asked never yields a graph: it raises \<^verbatim>\<open>AttributeError\<close> where the modifier list
  is split, unless producing the template has raised before.
\<close>

theorem get_pg_default_modifiers_raises:
  assumes "truthy_str (logical_graph opts) \<or> truthy_str (physical_graph opts)"
    and "pg_modifiers opts = pg_modifiers default_options"
  shows "get_pg w opts nms dims =
           Some (Inl (case graph_template w opts nms dims of Inl e \<Rightarrow> e | Inr pgt \<Rightarrow> AttributeError))"
proof -
  from assms(2) have n: "pg_modifiers opts = None" by (simp add: default_options_def)
  from assms(1) have c: "\<not> (\<not> truthy_str (logical_graph opts) \<and> \<not> truthy_str (physical_graph opts))"
    by blast
  show ?thesis
    unfolding get_pg_def Let_def using c n by (simp split: sum.splits)
qed

theorem get_pg_default_modifiers_raises_witness:
  "get_pg world_ex opts_physical [''nm1''] [''dim1''] = Some (Inl AttributeError)"
proof -
  have 1: "truthy_str (logical_graph opts_physical) \<or> truthy_str (physical_graph opts_physical)"
    by (simp add: opts_physical_def default_options_def)
  have 2: "pg_modifiers opts_physical = pg_modifiers default_options"
    by (simp add: opts_physical_def)
  have 3: "graph_template world_ex opts_physical [''nm1''] [''dim1''] = Inr (JList [JStr ''a''])"
    by (simp add: graph_template_def world_ex_def opts_physical_def default_options_def)
  from get_pg_default_modifiers_raises[OF 1 2, of world_ex "[''nm1'']" "[''dim1'']"] 3
  show ?thesis by simp
qed

section \<open>Properties of main\<close>

text \<open>
  C8, as the code has it. With \<^verbatim>\<open>--check-interfaces\<close>, when the two discovery calls return,
  \<^verbatim>\<open>main\<close> prints the two addresses and exits with status 0, whatever the other options
  are: no option is validated and the orchestration, which alone starts managers, is not
  reached. The second address is what the \<^verbatim>\<open>try\<close> block of \<^verbatim>\<open>get_ip_via_ifconfig\<close> makes of
  the output of the command, on Python 3 always the text \<^verbatim>\<open>'None'\<close>.
\<close>

theorem check_interfaces_exits:
  assumes "check_interfaces opts"
    and "local_ip_addr os = Inr a"
    and "ifconfig os = Inr out"
  shows "main os opts =
           ([''From netifaces: '' @ a,
             ''From ifconfig: '' @ ifconfig_address (interpreter os) out 1], Exit 0)"
  using assms by (simp add: main_def get_ip_via_netifaces_def get_ip_via_ifconfig_def)

theorem check_interfaces_exits_witness:
  "main os_ex (default_options\<lparr>check_interfaces := True\<rparr>) =
     ([''From netifaces: 10.128.0.98'', ''From ifconfig: 10.128.0.98''], Exit 0)"
proof -
  have 1: "check_interfaces (default_options\<lparr>check_interfaces := True\<rparr>)" by simp
  have 2: "local_ip_addr os_ex = Inr ''10.128.0.98''" by (simp add: os_ex_def)
  have 3: "ifconfig os_ex = Inr (''eth0  Link encap:Ethernet'' @ [CHR 0x0A] @
                      ''      inet addr:10.128.0.98  Bcast:10.128.0.255'' @ [CHR 0x0A])"
    by (simp add: os_ex_def)
  have 4: "ifconfig_address (interpreter os_ex) (''eth0  Link encap:Ethernet'' @ [CHR 0x0A] @
             ''      inet addr:10.128.0.98  Bcast:10.128.0.255'' @ [CHR 0x0A]) 1 = ''10.128.0.98''"
    by code_simp
  from check_interfaces_exits[OF 1 2 3] 4 show ?thesis by simp
qed

text \<open>
  C8 as claimed fails: where the command \<^verbatim>\<open>ifconfig\<close> cannot be run, \<^verbatim>\<open>main\<close> prints the
  first line only and ends with the exception of \<^verbatim>\<open>subprocess.check_output\<close>, which nothing
  catches, instead of exiting with status 0.
\<close>

theorem check_interfaces_without_ifconfig:
  "main os_no_ifconfig (default_options\<lparr>check_interfaces := True\<rparr>) =
     ([''From netifaces: 10.128.0.98''], Uncaught (OtherException ''OSError''))"
  by (simp add: main_def get_ip_via_netifaces_def get_ip_via_ifconfig_def os_no_ifconfig_def)

end
